theory Spec2Isabelle
  imports Main
begin

section \<open>Python strings\<close>

text \<open>
  A Python \<^verbatim>\<open>str\<close> is a sequence of Unicode code points, and \<^verbatim>\<open>len\<close> counts code
  points.  A character is therefore modelled by its code point, a natural number, and a
  string by the list of its code points.  String literals of the source are written with
  \<open>py\<close>, which maps an ASCII literal to its code points.
\<close>

type_synonym pychar = nat
type_synonym pystr = "pychar list"

definition py :: "string \<Rightarrow> pystr" where
  "py s = map of_char s"

text \<open>
  \<^verbatim>\<open>str.isspace\<close> for one character, which is also the set that \<^verbatim>\<open>str.strip()\<close>
  removes, that \<^verbatim>\<open>str.split()\<close> splits on and that \<^verbatim>\<open>\s\<close> matches in a \<^verbatim>\<open>str\<close>
  pattern: the code points whose bidirectional class is WS, B or S, or whose category
  is Zs.
\<close>

definition isspace :: "pychar \<Rightarrow> bool" where
  "isspace c \<longleftrightarrow>
     (9 \<le> c \<and> c \<le> 13) \<or> (28 \<le> c \<and> c \<le> 32) \<or> c = 133 \<or> c = 160 \<or> c = 5760 \<or>
     (8192 \<le> c \<and> c \<le> 8202) \<or> c = 8232 \<or> c = 8233 \<or> c = 8239 \<or> c = 8287 \<or>
     c = 12288"

definition lstrip :: "pystr \<Rightarrow> pystr" where
  "lstrip s = dropWhile isspace s"

definition rstrip :: "pystr \<Rightarrow> pystr" where
  "rstrip s = rev (dropWhile isspace (rev s))"

definition strip :: "pystr \<Rightarrow> pystr" where
  "strip s = rstrip (lstrip s)"

definition startswith :: "pystr \<Rightarrow> pystr \<Rightarrow> bool" where
  "startswith s p \<longleftrightarrow> take (length p) s = p"

section \<open>Commit-message sanitizer (\<^verbatim>\<open>commit_service.py\<close>)\<close>

text \<open>
  The character class \<^verbatim>\<open>[\x00-\x08\x0b-\x1f\x7f]\<close> of \<^verbatim>\<open>_sanitize_commit_message\<close>.
\<close>

definition is_control :: "pychar \<Rightarrow> bool" where
  "is_control c \<longleftrightarrow> c \<le> 8 \<or> (11 \<le> c \<and> c \<le> 31) \<or> c = 127"

text \<open>
  \<^verbatim>\<open>re.sub(cls, "", message)\<close> with a one-character class deletes every character of the
  class; the result is then stripped.
\<close>

definition sanitize_commit_message :: "pystr \<Rightarrow> pystr" where
  "sanitize_commit_message message =
     (let cleaned = filter (\<lambda>c. \<not> is_control c) message in strip cleaned)"

section \<open>Facts about stripping\<close>

lemma set_strip_subset: "set (strip s) \<subseteq> set s"
proof -
  have "set (strip s) \<subseteq> set (lstrip s)"
    unfolding strip_def rstrip_def using set_dropWhileD by fastforce
  also have "\<dots> \<subseteq> set s"
    unfolding lstrip_def using set_dropWhileD by fastforce
  finally show ?thesis .
qed

lemma lstrip_fixed: "s = [] \<or> \<not> isspace (hd s) \<Longrightarrow> lstrip s = s"
  by (cases s) (auto simp: lstrip_def)

lemma rstrip_fixed: "s = [] \<or> \<not> isspace (last s) \<Longrightarrow> rstrip s = s"
proof (cases "s = []")
  case True
  then show ?thesis by (simp add: rstrip_def)
next
  case False
  assume "s = [] \<or> \<not> isspace (last s)"
  with False have "\<not> isspace (hd (rev s))" by (simp add: hd_rev)
  with False have "dropWhile isspace (rev s) = rev s" by (cases "rev s") auto
  then show ?thesis by (simp add: rstrip_def)
qed

lemma lstrip_head: "lstrip s = [] \<or> \<not> isspace (hd (lstrip s))"
  unfolding lstrip_def by (metis hd_dropWhile)

lemma rstrip_last: "rstrip s = [] \<or> \<not> isspace (last (rstrip s))"
proof (cases "dropWhile isspace (rev s) = []")
  case True
  then show ?thesis by (simp add: rstrip_def)
next
  case False
  then have "\<not> isspace (hd (dropWhile isspace (rev s)))" by (metis hd_dropWhile)
  with False show ?thesis by (simp add: rstrip_def last_rev)
qed

lemma rstrip_keeps_head:
  assumes "t \<noteq> []" and "\<not> isspace (hd t)"
  shows "rstrip t \<noteq> [] \<and> hd (rstrip t) = hd t"
proof -
  obtain x xs where t: "t = x # xs" using assms(1) by (cases t) auto
  have "dropWhile isspace (rev xs @ [x]) = dropWhile isspace (rev xs) @ [x]"
    using assms(2) t by (simp add: dropWhile_append3)
  then have "rstrip t = x # rev (dropWhile isspace (rev xs))"
    by (simp add: rstrip_def t)
  then show ?thesis by (simp add: t)
qed

lemma strip_ends:
  "strip s = [] \<or> (\<not> isspace (hd (strip s)) \<and> \<not> isspace (last (strip s)))"
proof (cases "lstrip s = []")
  case True
  then show ?thesis by (simp add: strip_def rstrip_def)
next
  case False
  with lstrip_head [of s] have h: "\<not> isspace (hd (lstrip s))" by simp
  from rstrip_keeps_head [OF False h] rstrip_last [of "lstrip s"] h
  show ?thesis by (simp add: strip_def)
qed

lemma strip_fixed:
  "s = [] \<or> (\<not> isspace (hd s) \<and> \<not> isspace (last s)) \<Longrightarrow> strip s = s"
  unfolding strip_def using lstrip_fixed [of s] rstrip_fixed [of s] by auto

lemma strip_strip: "strip (strip s) = strip s"
  using strip_ends [of s] by (rule strip_fixed)

section \<open>The sanitizer is idempotent\<close>

lemma sanitize_no_control: "c \<in> set (sanitize_commit_message m) \<Longrightarrow> \<not> is_control c"
  using set_strip_subset [of "filter (\<lambda>c. \<not> is_control c) m"]
  by (auto simp: sanitize_commit_message_def)

text \<open>
  Claim C9.  Sanitizing a commit message twice gives the same string as sanitizing it
  once, for every input string: the second pass finds no control character to delete
  and no surrounding whitespace to trim.
\<close>

theorem sanitize_commit_message_idempotent:
  "sanitize_commit_message (sanitize_commit_message m) = sanitize_commit_message m"
proof -
  let ?r = "sanitize_commit_message m"
  have "filter (\<lambda>c. \<not> is_control c) ?r = ?r"
    using sanitize_no_control [of _ m] by (simp add: filter_id_conv)
  then have "sanitize_commit_message ?r = strip ?r"
    by (simp add: sanitize_commit_message_def)
  also have "\<dots> = ?r"
    by (simp add: sanitize_commit_message_def strip_strip)
  finally show ?thesis .
qed

section \<open>More string operations\<close>

text \<open>\<^verbatim>\<open>sep.join(xs)\<close>.\<close>

fun join :: "pystr \<Rightarrow> pystr list \<Rightarrow> pystr" where
  "join sep [] = []"
| "join sep [x] = x"
| "join sep (x # y # ys) = x @ sep @ join sep (y # ys)"

text \<open>
  \<^verbatim>\<open>str.splitlines()\<close>: a line ends at \<^verbatim>\<open>\n\<close>, \<^verbatim>\<open>\r\<close>, \<^verbatim>\<open>\r\n\<close>, \<^verbatim>\<open>\v\<close>, \<^verbatim>\<open>\f\<close>,
  \<^verbatim>\<open>\x1c\<close>, \<^verbatim>\<open>\x1d\<close>, \<^verbatim>\<open>\x1e\<close>, \<^verbatim>\<open>\x85\<close>, U+2028 or U+2029; the line breaks are not
  part of the lines, and a final line break does not open an empty last line.
\<close>

definition is_linebreak :: "pychar \<Rightarrow> bool" where
  "is_linebreak c \<longleftrightarrow>
     (10 \<le> c \<and> c \<le> 13) \<or> (28 \<le> c \<and> c \<le> 30) \<or> c = 133 \<or> c = 8232 \<or> c = 8233"

fun splitlines_from :: "pystr \<Rightarrow> pystr \<Rightarrow> pystr list" where
  "splitlines_from cur [] = (if cur = [] then [] else [cur])"
| "splitlines_from cur (c # cs) =
     (if c = 13 \<and> cs \<noteq> [] \<and> hd cs = 10 then cur # splitlines_from [] (tl cs)
      else if is_linebreak c then cur # splitlines_from [] cs
      else splitlines_from (cur @ [c]) cs)"

definition splitlines :: "pystr \<Rightarrow> pystr list" where
  "splitlines s = splitlines_from [] s"

text \<open>
  \<^verbatim>\<open>s.split(sep)\<close> for a non-empty separator: the occurrences of \<open>sep\<close> are found from
  the left without overlap, and the pieces between them are returned, so the result is
  never empty.  (Python raises on an empty separator; every separator of the source is
  a non-empty literal.)
\<close>

fun split_from :: "pystr \<Rightarrow> pystr \<Rightarrow> pystr \<Rightarrow> pystr list" where
  "split_from sep cur [] = [cur]"
| "split_from sep cur (c # cs) =
     (if startswith (c # cs) sep then cur # split_from sep [] (drop (length sep - 1) cs)
      else split_from sep (cur @ [c]) cs)"

definition split :: "pystr \<Rightarrow> pystr \<Rightarrow> pystr list" where
  "split sep s = split_from sep [] s"

text \<open>\<^verbatim>\<open>s.split()\<close>: the maximal runs of non-whitespace characters.\<close>

fun words_from :: "pystr \<Rightarrow> pystr \<Rightarrow> pystr list" where
  "words_from cur [] = (if cur = [] then [] else [cur])"
| "words_from cur (c # cs) =
     (if isspace c then (if cur = [] then words_from [] cs else cur # words_from [] cs)
      else words_from (cur @ [c]) cs)"

definition split_ws :: "pystr \<Rightarrow> pystr list" where
  "split_ws s = words_from [] s"

text \<open>\<^verbatim>\<open>needle in s\<close> for strings: \<open>needle\<close> occurs as a substring.\<close>

fun contains :: "pystr \<Rightarrow> pystr \<Rightarrow> bool" where
  "contains [] needle = (needle = [])"
| "contains (c # cs) needle = (startswith (c # cs) needle \<or> contains cs needle)"

text \<open>\<^verbatim>\<open>str(n)\<close> for an integer: the decimal digits, after a minus sign if negative.\<close>

fun digits :: "nat \<Rightarrow> pystr" where
  "digits n = (if n < 10 then [48 + n] else digits (n div 10) @ [48 + n mod 10])"

declare digits.simps [simp del]

definition str_int :: "int \<Rightarrow> pystr" where
  "str_int i = (if i < 0 then 45 # digits (nat (- i)) else digits (nat i))"

section \<open>Exceptions (\<^verbatim>\<open>core/exceptions.py\<close>)\<close>

text \<open>
  The messages of the \<^verbatim>\<open>ValueError\<close>s raised by the services.  Those built with
  \<^verbatim>\<open>{name!r}\<close> keep the offending string as it is instead of its \<^verbatim>\<open>repr\<close>.
\<close>

datatype value_error =
    InvalidBranchName pystr
  | InvalidFilePath pystr
  | InvalidRemoteName
  | EmptyCommitMessage
  | CommitMessageTooLong
  | EmptyErrorOutput
  | SubstringNotFound
  | InvalidIntLiteral pystr

text \<open>
  An exception value: its class, with the fields the class carries (\<open>message\<close>, and
  \<open>stderr\<close> for \<^verbatim>\<open>GitCommandError\<close>).
\<close>

datatype exn =
    GitCommandError pystr pystr
  | RepoNotFoundError pystr
  | InvalidPathError pystr
  | AIServiceError pystr
  | AINotConfiguredError pystr
  | ValueError value_error

datatype exn_class =
    GitCommandError_cls | RepoNotFoundError_cls | InvalidPathError_cls
  | AIServiceError_cls | AINotConfiguredError_cls | ValueError_cls

fun class_of :: "exn \<Rightarrow> exn_class" where
  "class_of (GitCommandError m e) = GitCommandError_cls"
| "class_of (RepoNotFoundError m) = RepoNotFoundError_cls"
| "class_of (InvalidPathError m) = InvalidPathError_cls"
| "class_of (AIServiceError m) = AIServiceError_cls"
| "class_of (AINotConfiguredError m) = AINotConfiguredError_cls"
| "class_of (ValueError v) = ValueError_cls"

text \<open>The \<^verbatim>\<open>status_code\<close> attribute of the application's exception classes.\<close>

fun status_code :: "exn_class \<Rightarrow> nat option" where
  "status_code GitCommandError_cls = Some 400"
| "status_code RepoNotFoundError_cls = Some 404"
| "status_code InvalidPathError_cls = Some 400"
| "status_code AIServiceError_cls = Some 503"
| "status_code AINotConfiguredError_cls = Some 503"
| "status_code ValueError_cls = None"

section \<open>The environment of a call\<close>

text \<open>
  What the executor reads from outside the program: the file system (through
  \<^verbatim>\<open>Path.resolve\<close> and \<^verbatim>\<open>Path.exists\<close>), the process environment, the configured default
  repository, and the outcome of \<^verbatim>\<open>subprocess.run\<close> on a request.
\<close>

record request =
  cmd :: "pystr list"
  timeout :: nat
  env :: "(pystr \<times> pystr) list"

datatype outcome =
    TimeoutExpired
  | FileNotFound
  | CompletedProcess int pystr pystr

record world =
  resolve :: "pystr \<Rightarrow> pystr"
  path_exists :: "pystr \<Rightarrow> bool"
  environ :: "pystr \<Rightarrow> pystr option"
  subprocess_run :: "request \<Rightarrow> outcome"
  DEFAULT_REPO_PATH :: pystr

section \<open>Path resolver and command executor (\<^verbatim>\<open>core/git_runner.py\<close>)\<close>

definition GIT_TIMEOUT :: nat where
  "GIT_TIMEOUT = 30"

text \<open>\<^verbatim>\<open>p / name\<close> on POSIX paths written as strings.\<close>

definition joinpath :: "pystr \<Rightarrow> pystr \<Rightarrow> pystr" where
  "joinpath p name = (if p \<noteq> [] \<and> last p = 47 then p @ name else p @ [47] @ name)"

text \<open>\<^verbatim>\<open>x or default\<close> for an optional string: \<^verbatim>\<open>None\<close> and \<^verbatim>\<open>""\<close> are falsy.\<close>

fun or_default :: "pystr option \<Rightarrow> pystr \<Rightarrow> pystr" where
  "or_default None d = d"
| "or_default (Some s) d = (if s = [] then d else s)"

definition resolve_repo :: "world \<Rightarrow> pystr option \<Rightarrow> exn + pystr" where
  "resolve_repo w repo_path =
     (let raw = or_default repo_path (DEFAULT_REPO_PATH w);
          resolved = resolve w raw
      in if \<not> path_exists w resolved
         then Inl (InvalidPathError (py ''Path does not exist: '' @ resolved))
         else if \<not> path_exists w (joinpath resolved (py ''.git''))
         then Inl (RepoNotFoundError (py ''Not a valid git repository.''))
         else Inr resolved)"

text \<open>\<^verbatim>\<open>os.environ.get(name, default)\<close>.\<close>

definition environ_get :: "world \<Rightarrow> pystr \<Rightarrow> pystr \<Rightarrow> pystr" where
  "environ_get w name d = (case environ w name of None \<Rightarrow> d | Some v \<Rightarrow> v)"

definition git_request :: "world \<Rightarrow> pystr \<Rightarrow> pystr list \<Rightarrow> request" where
  "git_request w cwd args =
     \<lparr>cmd = [py ''git'', py ''-C'', cwd] @ args,
      timeout = GIT_TIMEOUT,
      env = [(py ''PATH'', environ_get w (py ''PATH'') (py ''/usr/bin:/bin'')),
             (py ''HOME'', environ_get w (py ''HOME'') (py ''/root'')),
             (py ''GIT_TERMINAL_PROMPT'', py ''0'')]\<rparr>"

text \<open>
  \<^verbatim>\<open>run_git\<close> returns the standard output or raises; the second component lists the
  requests handed to \<^verbatim>\<open>subprocess.run\<close>, in order, so that "no process was spawned" is
  the empty list.
\<close>

definition run_git :: "world \<Rightarrow> pystr list \<Rightarrow> pystr option \<Rightarrow> (exn + pystr) \<times> request list" where
  "run_git w args repo_path =
     (case resolve_repo w repo_path of
        Inl e \<Rightarrow> (Inl e, [])
      | Inr cwd \<Rightarrow>
          (let req = git_request w cwd args in
           (case subprocess_run w req of
              TimeoutExpired \<Rightarrow> Inl (GitCommandError (py ''Git command timed out.'') [])
            | FileNotFound \<Rightarrow>
                Inl (GitCommandError (py ''git executable not found. Is git installed?'') [])
            | CompletedProcess returncode out err \<Rightarrow>
                if returncode \<noteq> 0
                then Inl (GitCommandError
                            (py ''Git command failed: '' @ join (py '' '') (take 2 args))
                            (strip err))
                else Inr out,
            [req])))"

section \<open>Ref-name validator and commit log (\<^verbatim>\<open>services/commit_service.py\<close>)\<close>

text \<open>The list \<^verbatim>\<open>forbidden\<close>; backslash is code point 92.\<close>

definition forbidden :: "pystr list" where
  "forbidden = [py '' '', [9], [10], [0], [92], py ''..'', py ''~'', py ''^'', py '':'',
                py ''?'', py ''*'', py ''['']"

definition is_valid_ref_name :: "pystr \<Rightarrow> bool" where
  "is_valid_ref_name name =
     (if name = [] \<or> length name > 250 then False
      else \<not> list_ex (\<lambda>c. contains name c) forbidden \<and> \<not> startswith name (py ''-''))"

record commit =
  sha :: pystr
  short_sha :: pystr
  author :: pystr
  email :: pystr
  date :: pystr
  message :: pystr

text \<open>One line of the log output: a line without exactly six fields is skipped.\<close>

definition commit_of_line :: "pystr \<Rightarrow> pystr \<Rightarrow> commit option" where
  "commit_of_line sep line =
     (let parts = split sep line
      in if length parts \<noteq> 6 then None
         else Some \<lparr>sha = parts ! 0, short_sha = parts ! 1, author = parts ! 2,
                     email = parts ! 3, date = parts ! 4, message = parts ! 5\<rparr>)"

definition get_log ::
  "world \<Rightarrow> int \<Rightarrow> pystr option \<Rightarrow> pystr option \<Rightarrow> (exn + commit list) \<times> request list" where
  "get_log w limit0 branch repo_path =
     (let limit = min (max 1 limit0) 200;
          sep = [31];
          fmt = join sep [py ''%H'', py ''%h'', py ''%an'', py ''%ae'', py ''%ci'', py ''%s''];
          args = [py ''log'', py ''--format='' @ fmt, py ''-'' @ str_int limit];
          b = or_default branch []
      in if b \<noteq> [] \<and> \<not> is_valid_ref_name b
         then (Inl (ValueError (InvalidBranchName b)), [])
         else
           (case run_git w (if b \<noteq> [] then args @ [b] else args) repo_path of
              (Inl e, spawned) \<Rightarrow> (Inl e, spawned)
            | (Inr raw, spawned) \<Rightarrow>
                (Inr (List.map_filter (commit_of_line sep) (splitlines raw)), spawned)))"

section \<open>Staging a file (\<^verbatim>\<open>services/status_service.py\<close>)\<close>


section \<open>Remote operations (\<^verbatim>\<open>services/remote_service.py\<close>, \<^verbatim>\<open>api/remotes.py\<close>)\<close>

definition fetch :: "world \<Rightarrow> pystr \<Rightarrow> pystr option \<Rightarrow> (exn + pystr) \<times> request list" where
  "fetch w remote repo_path = run_git w [py ''fetch'', py ''--prune'', remote] repo_path"

definition pull ::
  "world \<Rightarrow> pystr \<Rightarrow> pystr option \<Rightarrow> pystr option \<Rightarrow> (exn + pystr) \<times> request list" where
  "pull w remote branch repo_path =
     (let args = [py ''pull'', remote];
          b = or_default branch []
      in run_git w (if b \<noteq> [] then args @ [b] else args) repo_path)"

definition push ::
  "world \<Rightarrow> pystr \<Rightarrow> pystr option \<Rightarrow> pystr option \<Rightarrow> (exn + pystr) \<times> request list" where
  "push w remote branch repo_path =
     (let args = [py ''push'', remote];
          b = or_default branch []
      in run_git w (if b \<noteq> [] then args @ [b] else args) repo_path)"


section \<open>Sample environments\<close>

text \<open>
  A file system with a repository at \<^verbatim>\<open>/repo\<close> and a plain directory at \<^verbatim>\<open>/plain\<close>, where
  \<^verbatim>\<open>.\<close> resolves to \<^verbatim>\<open>/repo\<close> and every process exits with the given outcome.
\<close>

definition sample_world :: "outcome \<Rightarrow> world" where
  "sample_world out =
     \<lparr>resolve = (\<lambda>p. if p = py ''.'' then py ''/repo'' else p),
      path_exists = (\<lambda>p. p = py ''/repo'' \<or> p = py ''/repo/.git'' \<or> p = py ''/plain''),
      environ = (\<lambda>n. None),
      subprocess_run = (\<lambda>r. out),
      DEFAULT_REPO_PATH = py ''/repo''\<rparr>"

text \<open>The class of the exception a call raised, if it raised one.\<close>

fun raised :: "(exn + 'a) \<times> request list \<Rightarrow> exn_class option" where
  "raised (Inl e, spawned) = Some (class_of e)"
| "raised (Inr v, spawned) = None"

section \<open>Properties of the ref-name validator\<close>

lemma contains_set: "contains s n \<Longrightarrow> set n \<subseteq> set s"
proof (induction s)
  case Nil
  then show ?case by simp
next
  case (Cons c cs)
  show ?case
  proof (cases "startswith (c # cs) n")
    case True
    then have "n = take (length n) (c # cs)" by (simp add: startswith_def)
    then have "set n \<subseteq> set (c # cs)" by (metis set_take_subset)
    then show ?thesis .
  next
    case False
    with Cons show ?thesis by auto
  qed
qed

lemma contains_single: "contains s [c] \<longleftrightarrow> c \<in> set s"
  by (induction s) (auto simp: startswith_def)

text \<open>
  A name "of ordinary form": ASCII letters, digits, \<^verbatim>\<open>/\<close>, \<^verbatim>\<open>-\<close> and \<^verbatim>\<open>_\<close>.
\<close>

definition ordinary_char :: "pychar \<Rightarrow> bool" where
  "ordinary_char c \<longleftrightarrow>
     (65 \<le> c \<and> c \<le> 90) \<or> (97 \<le> c \<and> c \<le> 122) \<or> (48 \<le> c \<and> c \<le> 57) \<or>
     c = 47 \<or> c = 45 \<or> c = 95"

lemma ordinary_not_forbidden:
  assumes "list_all ordinary_char name" and "f \<in> set forbidden"
  shows "\<not> contains name f"
proof
  assume "contains name f"
  then have "set f \<subseteq> set name" by (rule contains_set)
  moreover have "\<exists>c \<in> set f. \<not> ordinary_char c"
    using assms(2) by (auto simp: forbidden_def py_def ordinary_char_def)
  ultimately show False using assms(1) by (auto simp: list_all_iff)
qed

text \<open>
  Claim C3, as the code has it.  The validator rejects every name that is empty, longer
  than 250 characters, contains a space, a tab, a newline, NUL, a backslash or the
  substring \<^verbatim>\<open>..\<close>, contains one of \<^verbatim>\<open>~ ^ : ? * [\<close>, or starts with \<^verbatim>\<open>-\<close>; and it accepts
  every non-empty name of at most 250 characters that is built only from letters,
  digits, \<^verbatim>\<open>/\<close>, \<^verbatim>\<open>-\<close> and \<^verbatim>\<open>_\<close> and does not start with \<^verbatim>\<open>-\<close>.
\<close>

theorem is_valid_ref_name_spec:
  "(name = [] \<or> length name > 250 \<or> 32 \<in> set name \<or> 9 \<in> set name \<or> 10 \<in> set name \<or>
    0 \<in> set name \<or> 92 \<in> set name \<or> contains name (py ''..'') \<or>
    (\<exists>c \<in> set (py ''~^:?*[''). c \<in> set name) \<or> startswith name (py ''-'')
      \<longrightarrow> \<not> is_valid_ref_name name) \<and>
   (name \<noteq> [] \<and> length name \<le> 250 \<and> list_all ordinary_char name \<and>
    \<not> startswith name (py ''-'')
      \<longrightarrow> is_valid_ref_name name)"
proof (intro conjI impI)
  assume "name = [] \<or> length name > 250 \<or> 32 \<in> set name \<or> 9 \<in> set name \<or> 10 \<in> set name \<or>
    0 \<in> set name \<or> 92 \<in> set name \<or> contains name (py ''..'') \<or>
    (\<exists>c \<in> set (py ''~^:?*[''). c \<in> set name) \<or> startswith name (py ''-'')"
  then show "\<not> is_valid_ref_name name"
    by (auto simp: is_valid_ref_name_def forbidden_def py_def contains_single)
next
  assume a: "name \<noteq> [] \<and> length name \<le> 250 \<and> list_all ordinary_char name \<and>
    \<not> startswith name (py ''-'')"
  then have "\<not> contains name f" if "f \<in> set forbidden" for f
    using ordinary_not_forbidden that by blast
  with a show "is_valid_ref_name name"
    by (auto simp: is_valid_ref_name_def list_ex_iff)
qed

text \<open>
  The theorem at the branch names of the unit tests: \<^verbatim>\<open>branch~1\<close> is rejected and
  \<^verbatim>\<open>feature/my-feature\<close> is accepted.
\<close>

theorem is_valid_ref_name_spec_witness:
  "(\<exists>c \<in> set (py ''~^:?*[''). c \<in> set (py ''branch~1'')) \<and>
   \<not> is_valid_ref_name (py ''branch~1'') \<and>
   py ''feature/my-feature'' \<noteq> [] \<and> length (py ''feature/my-feature'') \<le> 250 \<and>
   list_all ordinary_char (py ''feature/my-feature'') \<and>
   \<not> startswith (py ''feature/my-feature'') (py ''-'') \<and>
   is_valid_ref_name (py ''feature/my-feature'')"
proof -
  have r: "\<exists>c \<in> set (py ''~^:?*[''). c \<in> set (py ''branch~1'')"
    by (simp add: py_def)
  have a: "py ''feature/my-feature'' \<noteq> [] \<and> length (py ''feature/my-feature'') \<le> 250 \<and>
      list_all ordinary_char (py ''feature/my-feature'') \<and>
      \<not> startswith (py ''feature/my-feature'') (py ''-'')"
    by (simp add: py_def ordinary_char_def startswith_def)
  from r a is_valid_ref_name_spec [of "py ''branch~1''"]
    is_valid_ref_name_spec [of "py ''feature/my-feature''"]
  show ?thesis by blast
qed

text \<open>
  The claim as written fails twice.  The name \<^verbatim>\<open>-d\<close> is non-empty, shorter than 250
  characters and built only from \<^verbatim>\<open>-\<close> and a letter, yet it is rejected (the validator's
  own leading-dash guard).  And a name containing a carriage return, which is
  whitespace, is accepted: only space, tab and newline are in the list.
\<close>

theorem is_valid_ref_name_counterexample:
  "py ''-d'' \<noteq> [] \<and> length (py ''-d'') < 250 \<and> list_all ordinary_char (py ''-d'') \<and>
   \<not> is_valid_ref_name (py ''-d'') \<and>
   isspace 13 \<and> 13 \<in> set [97, 13, 98] \<and> is_valid_ref_name [97, 13, 98]"
  by (simp add: is_valid_ref_name_def forbidden_def py_def ordinary_char_def startswith_def
      isspace_def)

section \<open>Properties of the path resolver\<close>

lemma sample_world_simps:
  "resolve (sample_world out) p = (if p = py ''.'' then py ''/repo'' else p)"
  "path_exists (sample_world out) p =
     (p = py ''/repo'' \<or> p = py ''/repo/.git'' \<or> p = py ''/plain'')"
  "environ (sample_world out) n = None"
  "subprocess_run (sample_world out) r = out"
  "DEFAULT_REPO_PATH (sample_world out) = py ''/repo''"
  by (simp_all add: sample_world_def)

lemma sample_world_resolves: "resolve_repo (sample_world out) None = Inr (py ''/repo'')"
  by (simp add: resolve_repo_def sample_world_simps Let_def joinpath_def py_def)



section \<open>Properties of the command executor\<close>

text \<open>
  Claim C6, as the code has it.  In a resolved repository the request carries the
  timeout of 30 seconds; when the process times out, \<^verbatim>\<open>run_git\<close> raises
  \<^verbatim>\<open>GitCommandError\<close> with the message \<^verbatim>\<open>Git command timed out.\<close> and an empty \<open>stderr\<close>;
  when the executable is missing, it raises \<^verbatim>\<open>GitCommandError\<close> with the message
  \<^verbatim>\<open>git executable not found. Is git installed?\<close>; on a non-zero exit it raises
  \<^verbatim>\<open>GitCommandError\<close> with \<^verbatim>\<open>Git command failed:\<close> followed by the first two arguments,
  and the stripped standard error.  Every failure of the process is of the one class
  \<^verbatim>\<open>GitCommandError\<close>; the three are told apart by their messages, which differ
  pairwise.
\<close>

theorem run_git_failures:
  assumes "resolve_repo w repo_path = Inr cwd"
  shows
   "timeout (git_request w cwd args) = 30 \<and>
    (subprocess_run w (git_request w cwd args) = TimeoutExpired \<longrightarrow>
       fst (run_git w args repo_path) =
         Inl (GitCommandError (py ''Git command timed out.'') [])) \<and>
    (subprocess_run w (git_request w cwd args) = FileNotFound \<longrightarrow>
       fst (run_git w args repo_path) =
         Inl (GitCommandError (py ''git executable not found. Is git installed?'') [])) \<and>
    (\<forall>rc out err.
       subprocess_run w (git_request w cwd args) = CompletedProcess rc out err \<and> rc \<noteq> 0 \<longrightarrow>
       fst (run_git w args repo_path) =
         Inl (GitCommandError (py ''Git command failed: '' @ join (py '' '') (take 2 args))
                (strip err))) \<and>
    (\<forall>e. fst (run_git w args repo_path) = Inl e \<longrightarrow> class_of e = GitCommandError_cls) \<and>
    py ''Git command timed out.'' \<noteq> py ''git executable not found. Is git installed?'' \<and>
    py ''Git command timed out.'' \<noteq>
      py ''Git command failed: '' @ join (py '' '') (take 2 args) \<and>
    py ''git executable not found. Is git installed?'' \<noteq>
      py ''Git command failed: '' @ join (py '' '') (take 2 args)"
  using assms
  by (auto simp: run_git_def Let_def git_request_def GIT_TIMEOUT_def py_def
      split: outcome.splits)

text \<open>
  The three failures in the sample repository: a timeout, a missing executable, and
  exit status 128 with a message on standard error.
\<close>

theorem run_git_failures_witness:
  "fst (run_git (sample_world TimeoutExpired) [py ''status''] None) =
     Inl (GitCommandError (py ''Git command timed out.'') []) \<and>
   fst (run_git (sample_world FileNotFound) [py ''status''] None) =
     Inl (GitCommandError (py ''git executable not found. Is git installed?'') []) \<and>
   fst (run_git (sample_world (CompletedProcess 128 [] (py ''fatal: bad revision  '')))
          [py ''log'', py ''-1'', py ''x''] None) =
     Inl (GitCommandError (py ''Git command failed: log -1'') (py ''fatal: bad revision''))"
  using
    run_git_failures [OF sample_world_resolves [of TimeoutExpired], of "[py ''status'']"]
    run_git_failures [OF sample_world_resolves [of FileNotFound], of "[py ''status'']"]
    run_git_failures
      [OF sample_world_resolves [of "CompletedProcess 128 [] (py ''fatal: bad revision  '')"],
       of "[py ''log'', py ''-1'', py ''x'']"]
  by (simp add: sample_world_simps py_def strip_def lstrip_def rstrip_def isspace_def)

text \<open>
  The claim as written fails: a timeout, a missing executable and a non-zero exit all
  raise the same class, so there is no failure kind of its own for a timeout or for a
  missing executable.
\<close>

theorem run_git_same_class_counterexample:
  "raised (run_git (sample_world TimeoutExpired) [py ''status''] None) =
     Some GitCommandError_cls \<and>
   raised (run_git (sample_world FileNotFound) [py ''status''] None) =
     Some GitCommandError_cls \<and>
   raised (run_git (sample_world (CompletedProcess 1 [] [])) [py ''status''] None) =
     Some GitCommandError_cls"
  by (simp add: run_git_def sample_world_resolves Let_def sample_world_simps)

section \<open>Properties of the commit log\<close>

lemma run_git_spawned:
  "req \<in> set (snd (run_git w args rp)) \<Longrightarrow>
     \<exists>cwd. cmd req = [py ''git'', py ''-C'', cwd] @ args"
  by (auto simp: run_git_def Let_def git_request_def split: sum.splits)

lemma digits_200: "digits 200 = py ''200''"
  by (simp add: digits.simps py_def)

lemma digits_1: "digits (Suc 0) = py ''1''"
  by (simp add: digits.simps py_def)

text \<open>
  Claim C10.  For every integer \<open>limit\<close>, every process that \<^verbatim>\<open>get_log\<close> starts has, as
  its count argument (position 5 of the command line, after \<^verbatim>\<open>git -C cwd log --format=\<close>),
  a dash followed by the decimal form of \<open>min (max 1 limit) 200\<close>, and that number lies
  between 1 and 200.
\<close>

theorem get_log_limit_clamped:
  "(\<forall>req \<in> set (snd (get_log w limit branch repo_path)).
      length (cmd req) > 5 \<and> cmd req ! 5 = py ''-'' @ str_int (min (max 1 limit) 200)) \<and>
   1 \<le> min (max 1 limit) 200 \<and> min (max 1 limit) 200 \<le> 200"
proof -
  have "length (cmd req) > 5 \<and> cmd req ! 5 = py ''-'' @ str_int (min (max 1 limit) 200)"
    if "req \<in> set (snd (get_log w limit branch repo_path))" for req
  proof -
    let ?args = "[py ''log'',
        py ''--format='' @
          join [31] [py ''%H'', py ''%h'', py ''%an'', py ''%ae'', py ''%ci'', py ''%s''],
        py ''-'' @ str_int (min (max 1 limit) 200)]"
    let ?b = "or_default branch []"
    from that have
      "req \<in> set (snd (run_git w (if ?b \<noteq> [] then ?args @ [?b] else ?args) repo_path))"
      by (auto simp: get_log_def Let_def split: if_splits prod.splits sum.splits)
    then obtain cwd where
      "cmd req = [py ''git'', py ''-C'', cwd] @ (if ?b \<noteq> [] then ?args @ [?b] else ?args)"
      using run_git_spawned by blast
    then show ?thesis by (simp split: if_splits)
  qed
  then show ?thesis by auto
qed

text \<open>
  In the sample repository a limit of 1000 reaches the tool as \<^verbatim>\<open>-200\<close>, and a limit of
  -7 as \<^verbatim>\<open>-1\<close>.
\<close>

theorem get_log_limit_clamped_witness:
  "map (\<lambda>r. cmd r ! 5)
     (snd (get_log (sample_world (CompletedProcess 0 [] [])) 1000 None None)) =
     [py ''-200''] \<and>
   map (\<lambda>r. cmd r ! 5)
     (snd (get_log (sample_world (CompletedProcess 0 [] [])) (- 7) (Some (py ''main'')) None)) =
     [py ''-1'']"
proof -
  let ?w = "sample_world (CompletedProcess 0 [] [])"
  have a: "\<exists>r. snd (get_log ?w 1000 None None) = [r]"
    by (simp add: get_log_def Let_def run_git_def sample_world_resolves sample_world_simps)
  have b: "\<exists>r. snd (get_log ?w (- 7) (Some (py ''main'')) None) = [r]"
    by (simp add: get_log_def Let_def run_git_def sample_world_resolves sample_world_simps
        is_valid_ref_name_def forbidden_def py_def startswith_def)
  from a b get_log_limit_clamped [of ?w 1000 None None]
    get_log_limit_clamped [of ?w "- 7" "Some (py ''main'')" None]
  show ?thesis by (auto simp: str_int_def digits_200 digits_1 py_def)
qed

section \<open>The remote operations do not validate the remote name\<close>


section \<open>Status parser (\<^verbatim>\<open>services/status_service.py\<close>)\<close>

text \<open>
  \<^verbatim>\<open>FileStatus\<close> with its two properties.  The state codes are single characters:
  \<^verbatim>\<open>?\<close> is 63, \<^verbatim>\<open>!\<close> is 33, space is 32.
\<close>

record file_status =
  path :: pystr
  index_status :: pychar
  work_status :: pychar

definition is_staged :: "file_status \<Rightarrow> bool" where
  "is_staged f \<longleftrightarrow> index_status f \<notin> set (py ''? !'')"

definition is_unstaged :: "file_status \<Rightarrow> bool" where
  "is_unstaged f \<longleftrightarrow> work_status f \<notin> set (py '' !'')"

record repo_status =
  branch :: pystr
  ahead :: int
  behind :: int
  staged :: "file_status list"
  unstaged :: "file_status list"
  untracked :: "file_status list"

text \<open>
  One iteration of the loop of \<^verbatim>\<open>_parse_porcelain\<close>: a line shorter than four characters
  is skipped; the path is what follows the last \<^verbatim>\<open> -> \<close> of the text from offset 3.
\<close>

definition file_of_line :: "pystr \<Rightarrow> file_status option" where
  "file_of_line line =
     (if length line < 4 then None
      else
        (let x = line ! 0;
             y = line ! 1;
             path_part = drop 3 line;
             p = last (split (py '' -> '') path_part)
         in Some \<lparr>path = p, index_status = x, work_status = y\<rparr>))"

definition parse_porcelain :: "pystr \<Rightarrow> file_status list" where
  "parse_porcelain output = List.map_filter file_of_line (splitlines output)"

text \<open>
  \<^verbatim>\<open>int(s)\<close> in base ten: surrounding whitespace is ignored, a sign may come first, and
  the digits may be grouped by single underscores.  Python accepts every Unicode decimal
  digit; the table of the digits beyond ASCII belongs to the interpreter, so it is the
  parameter \<open>dec\<close>, which gives the value of such a digit.  (The interpreter's limit on
  the number of digits of a literal is left out.)
\<close>

definition digit_value :: "(pychar \<Rightarrow> nat option) \<Rightarrow> pychar \<Rightarrow> nat option" where
  "digit_value dec c =
     (if 48 \<le> c \<and> c \<le> 57 then Some (c - 48) else if c < 128 then None else dec c)"

fun parse_digits :: "(pychar \<Rightarrow> nat option) \<Rightarrow> nat \<Rightarrow> bool \<Rightarrow> pystr \<Rightarrow> nat option" where
  "parse_digits dec acc after_digit [] = (if after_digit then Some acc else None)"
| "parse_digits dec acc after_digit (c # cs) =
     (if c = 95 then (if after_digit then parse_digits dec acc False cs else None)
      else
        (case digit_value dec c of
           None \<Rightarrow> None
         | Some d \<Rightarrow> parse_digits dec (10 * acc + d) True cs))"

definition py_int :: "(pychar \<Rightarrow> nat option) \<Rightarrow> pystr \<Rightarrow> exn + int" where
  "py_int dec s =
     (let t = strip s;
          r = (if t \<noteq> [] \<and> hd t = 45 then map_option (\<lambda>n. - int n) (parse_digits dec 0 False (tl t))
               else if t \<noteq> [] \<and> hd t = 43 then map_option int (parse_digits dec 0 False (tl t))
               else map_option int (parse_digits dec 0 False t))
      in case r of None \<Rightarrow> Inl (ValueError (InvalidIntLiteral s)) | Some i \<Rightarrow> Inr i)"

text \<open>\<^verbatim>\<open>s.index(c)\<close> for a single character: the first position, or \<^verbatim>\<open>ValueError\<close>.\<close>

definition index_of :: "pystr \<Rightarrow> pychar \<Rightarrow> exn + nat" where
  "index_of s c =
     (if c \<in> set s then Inr (length (takeWhile (\<lambda>x. x \<noteq> c) s))
      else Inl (ValueError SubstringNotFound))"

text \<open>
  The loop over the comma-separated segments of the bracketed part of the header, with
  the pair \<open>(ahead, behind)\<close> as its state.
\<close>

fun scan_segments ::
  "(pychar \<Rightarrow> nat option) \<Rightarrow> int \<times> int \<Rightarrow> pystr list \<Rightarrow> exn + int \<times> int" where
  "scan_segments dec (a, b) [] = Inr (a, b)"
| "scan_segments dec (a, b) (seg # segs) =
     (let segment = strip seg in
      if startswith segment (py ''ahead'') then
        (case py_int dec (last (split_ws segment)) of
           Inl e \<Rightarrow> Inl e
         | Inr n \<Rightarrow> scan_segments dec (n, b) segs)
      else if startswith segment (py ''behind'') then
        (case py_int dec (last (split_ws segment)) of
           Inl e \<Rightarrow> Inl e
         | Inr n \<Rightarrow> scan_segments dec (a, n) segs)
      else scan_segments dec (a, b) segs)"

text \<open>
  The header part of \<^verbatim>\<open>get_status\<close>: branch, ahead and behind from the first line.
  The slice \<^verbatim>\<open>header[i + 1 : j]\<close> is empty when \<open>j \<le> i + 1\<close>.
\<close>

definition parse_header :: "(pychar \<Rightarrow> nat option) \<Rightarrow> pystr list \<Rightarrow> exn + pystr \<times> int \<times> int" where
  "parse_header dec lines =
     (if lines \<noteq> [] \<and> startswith (hd lines) (py ''## '') then
        (let header = drop 3 (hd lines);
             parts = split (py ''...'') header;
             br = hd parts
         in if 91 \<in> set header then
              (case index_of header 91 of
                 Inl e \<Rightarrow> Inl e
               | Inr i \<Rightarrow>
                   (case index_of header 93 of
                      Inl e \<Rightarrow> Inl e
                    | Inr j \<Rightarrow>
                        (let info = take (j - (i + 1)) (drop (i + 1) header) in
                         case scan_segments dec (0, 0) (split (py '','') info) of
                           Inl e \<Rightarrow> Inl e
                         | Inr (a, b) \<Rightarrow> Inr (br, a, b))))
            else Inr (br, 0, 0))
      else Inr (py ''unknown'', 0, 0))"

text \<open>
  \<^verbatim>\<open>get_status\<close> after the call of the tool: from the raw output to the record.  The
  first line is never parsed as a file line.
\<close>

definition parse_status :: "(pychar \<Rightarrow> nat option) \<Rightarrow> pystr \<Rightarrow> exn + repo_status" where
  "parse_status dec raw =
     (let lines = splitlines raw in
      case parse_header dec lines of
        Inl e \<Rightarrow> Inl e
      | Inr (br, a, b) \<Rightarrow>
          (let all_files = parse_porcelain (join [10] (tl lines)) in
           Inr \<lparr>branch = br, ahead = a, behind = b,
                staged = filter (\<lambda>f. is_staged f \<and> index_status f \<notin> set (py ''?!'')) all_files,
                unstaged = filter (\<lambda>f. is_unstaged f \<and> index_status f \<noteq> 63) all_files,
                untracked = filter (\<lambda>f. index_status f = 63 \<and> work_status f = 63) all_files\<rparr>))"

definition get_status ::
  "world \<Rightarrow> (pychar \<Rightarrow> nat option) \<Rightarrow> pystr option \<Rightarrow> (exn + repo_status) \<times> request list" where
  "get_status w dec repo_path =
     (case run_git w [py ''status'', py ''--porcelain=v1'', py ''--branch''] repo_path of
        (Inl e, spawned) \<Rightarrow> (Inl e, spawned)
      | (Inr raw, spawned) \<Rightarrow> (parse_status dec raw, spawned))"

text \<open>An interpreter whose only decimal digits are the ASCII ones.\<close>

definition ascii_only :: "pychar \<Rightarrow> nat option" where
  "ascii_only c = None"

section \<open>Properties of the status parser\<close>

lemmas status_eval =
  parse_status_def parse_header_def parse_porcelain_def file_of_line_def
  splitlines_def split_def split_ws_def index_of_def py_int_def digit_value_def
  startswith_def strip_def lstrip_def rstrip_def isspace_def is_linebreak_def
  is_staged_def is_unstaged_def List.map_filter_def Let_def py_def

text \<open>
  Claim C7.  After a header line, the porcelain line \<^verbatim>\<open>M  file.txt\<close> puts \<^verbatim>\<open>file.txt\<close> in
  the staged list and in neither of the other two; the line \<^verbatim>\<open>?? newfile.txt\<close> puts the
  file in the untracked list only; the rename line \<^verbatim>\<open>R  old.txt -> new.txt\<close> is parsed to
  the path \<^verbatim>\<open>new.txt\<close>; and in every parsed snapshot a file is in the untracked list
  exactly when it is one of the parsed files and both of its state codes are \<^verbatim>\<open>?\<close>.
\<close>

theorem status_lines_classified:
  "parse_status dec (py ''## main'' @ [10] @ py ''M  file.txt'') =
     Inr \<lparr>branch = py ''main'', ahead = 0, behind = 0,
          staged = [\<lparr>path = py ''file.txt'', index_status = 77, work_status = 32\<rparr>],
          unstaged = [], untracked = []\<rparr> \<and>
   parse_status dec (py ''## main'' @ [10] @ py ''?? newfile.txt'') =
     Inr \<lparr>branch = py ''main'', ahead = 0, behind = 0,
          staged = [], unstaged = [],
          untracked = [\<lparr>path = py ''newfile.txt'', index_status = 63, work_status = 63\<rparr>]\<rparr> \<and>
   parse_porcelain (py ''R  old.txt -> new.txt'') =
     [\<lparr>path = py ''new.txt'', index_status = 82, work_status = 32\<rparr>] \<and>
   (\<forall>st f. parse_status dec raw = Inr st \<longrightarrow>
      (f \<in> set (untracked st) \<longleftrightarrow>
         f \<in> set (parse_porcelain (join [10] (tl (splitlines raw)))) \<and>
         index_status f = 63 \<and> work_status f = 63))"
proof (intro conjI allI impI)
  show "parse_status dec (py ''## main'' @ [10] @ py ''M  file.txt'') =
     Inr \<lparr>branch = py ''main'', ahead = 0, behind = 0,
          staged = [\<lparr>path = py ''file.txt'', index_status = 77, work_status = 32\<rparr>],
          unstaged = [], untracked = []\<rparr>"
    by (simp add: status_eval)
  show "parse_status dec (py ''## main'' @ [10] @ py ''?? newfile.txt'') =
     Inr \<lparr>branch = py ''main'', ahead = 0, behind = 0,
          staged = [], unstaged = [],
          untracked = [\<lparr>path = py ''newfile.txt'', index_status = 63, work_status = 63\<rparr>]\<rparr>"
    by (simp add: status_eval)
  show "parse_porcelain (py ''R  old.txt -> new.txt'') =
     [\<lparr>path = py ''new.txt'', index_status = 82, work_status = 32\<rparr>]"
    by (simp add: status_eval)
next
  fix st f
  assume "parse_status dec raw = Inr st"
  then show "f \<in> set (untracked st) \<longleftrightarrow>
         f \<in> set (parse_porcelain (join [10] (tl (splitlines raw)))) \<and>
         index_status f = 63 \<and> work_status f = 63"
    by (auto simp: parse_status_def Let_def split: sum.splits prod.splits)
qed

text \<open>
  A snapshot with an untracked and a staged file: the untracked list holds exactly the
  file whose two codes are \<^verbatim>\<open>?\<close>.
\<close>

theorem status_lines_classified_witness:
  "parse_status ascii_only (py ''## main'' @ [10] @ py ''?? newfile.txt'' @ [10] @ py ''M  file.txt'') =
     Inr \<lparr>branch = py ''main'', ahead = 0, behind = 0,
          staged = [\<lparr>path = py ''file.txt'', index_status = 77, work_status = 32\<rparr>],
          unstaged = [],
          untracked = [\<lparr>path = py ''newfile.txt'', index_status = 63, work_status = 63\<rparr>]\<rparr> \<and>
   \<lparr>path = py ''newfile.txt'', index_status = 63, work_status = 63\<rparr>
     \<in> set (parse_porcelain (join [10] (tl (splitlines
           (py ''## main'' @ [10] @ py ''?? newfile.txt'' @ [10] @ py ''M  file.txt'')))))"
proof -
  let ?raw = "py ''## main'' @ [10] @ py ''?? newfile.txt'' @ [10] @ py ''M  file.txt''"
  let ?st = "\<lparr>branch = py ''main'', ahead = 0, behind = 0,
          staged = [\<lparr>path = py ''file.txt'', index_status = 77, work_status = 32\<rparr>],
          unstaged = [],
          untracked = [\<lparr>path = py ''newfile.txt'', index_status = 63, work_status = 63\<rparr>]\<rparr>"
  have e: "parse_status ascii_only ?raw = Inr ?st"
    by (simp add: status_eval)
  from status_lines_classified [of ascii_only ?raw] e
  have "\<lparr>path = py ''newfile.txt'', index_status = 63, work_status = 63\<rparr> \<in> set (untracked ?st) \<longleftrightarrow>
        \<lparr>path = py ''newfile.txt'', index_status = 63, work_status = 63\<rparr>
          \<in> set (parse_porcelain (join [10] (tl (splitlines ?raw)))) \<and>
        index_status \<lparr>path = py ''newfile.txt'', index_status = 63, work_status = 63\<rparr> = 63 \<and>
        work_status \<lparr>path = py ''newfile.txt'', index_status = 63, work_status = 63\<rparr> = 63"
    by blast
  with e show ?thesis by simp
qed




section \<open>Regular expressions\<close>

text \<open>
  The regular expressions of the source, with the meaning Python's \<^verbatim>\<open>re\<close> gives them on
  \<^verbatim>\<open>str\<close> patterns without flags: \<open>Str\<close> is a run of literal characters, \<open>Cls P\<close> one
  character of a class, \<open>Rep P n\<close> a greedy repetition of a class at least \<open>n\<close> times (the
  only repetitions in the source are \<^verbatim>\<open>\s+\<close>, \<^verbatim>\<open>\S+\<close>, \<^verbatim>\<open>\d+\<close> and \<^verbatim>\<open>\s*\<close>), \<open>Bol\<close> is \<^verbatim>\<open>^\<close>
  (only the start of the string), \<open>Eol\<close> is \<^verbatim>\<open>$\<close> (the end of the string, or just before a
  newline that ends it), \<open>Opt\<close> is a greedy \<^verbatim>\<open>(...)?\<close>.
\<close>

datatype regex =
    Str pystr
  | Cls "pychar \<Rightarrow> bool"
  | Rep "pychar \<Rightarrow> bool" nat
  | Bol
  | Eol
  | Cat regex regex
  | Opt regex

text \<open>
  The backtracking matcher: from a position (the number of characters consumed and the
  rest of the string), all positions where a match of the expression can end, in the
  order in which the engine tries them.
\<close>

fun ends :: "regex \<Rightarrow> nat \<times> pystr \<Rightarrow> (nat \<times> pystr) list" where
  "ends (Str l) (i, r) = (if startswith r l then [(i + length l, drop (length l) r)] else [])"
| "ends (Cls P) (i, r) = (case r of [] \<Rightarrow> [] | c # cs \<Rightarrow> if P c then [(i + 1, cs)] else [])"
| "ends (Rep P n) (i, r) =
     (let m = length (takeWhile P r) in map (\<lambda>k. (i + k, drop k r)) (rev [n..<m + 1]))"
| "ends Bol (i, r) = (if i = 0 then [(i, r)] else [])"
| "ends Eol (i, r) = (if r = [] \<or> r = [10] then [(i, r)] else [])"
| "ends (Cat p q) (i, r) = concat (map (ends q) (ends p (i, r)))"
| "ends (Opt p) (i, r) = ends p (i, r) @ [(i, r)]"

fun seq :: "regex list \<Rightarrow> regex" where
  "seq [] = Str []"
| "seq [p] = p"
| "seq (p # q # ps) = Cat p (seq (q # ps))"

text \<open>
  \<^verbatim>\<open>re.fullmatch\<close>: some match from the start ends at the end of the string.
  \<^verbatim>\<open>re.match\<close>: some match from the start.  \<^verbatim>\<open>re.sub(p, "", s)\<close> for a pattern that starts
  with \<^verbatim>\<open>^\<close> and cannot match the empty string: the first match the engine finds at the
  start is removed, and no later position can match.
\<close>

definition fullmatch :: "regex \<Rightarrow> pystr \<Rightarrow> bool" where
  "fullmatch p s = list_ex (\<lambda>st. snd st = []) (ends p (0, s))"

definition rematch :: "regex \<Rightarrow> pystr \<Rightarrow> bool" where
  "rematch p s = (ends p (0, s) \<noteq> [])"

definition sub_empty :: "regex \<Rightarrow> pystr \<Rightarrow> pystr" where
  "sub_empty p s = (case ends p (0, s) of [] \<Rightarrow> s | st # sts \<Rightarrow> snd st)"

text \<open>\<^verbatim>\<open>\s+\<close> and \<^verbatim>\<open>\S+\<close>, and the list \<^verbatim>\<open>_SAFE_AUTO_FIX_PATTERNS\<close>.\<close>

definition ws :: regex where "ws = Rep isspace 1"
definition nonws :: regex where "nonws = Rep (\<lambda>c. \<not> isspace c) 1"

definition SAFE_AUTO_FIX_PATTERNS :: "regex list" where
  "SAFE_AUTO_FIX_PATTERNS =
     [seq [Bol, Str (py ''git fetch''), Opt (seq [ws, nonws]), Eol],
      seq [Bol, Str (py ''git pull''), Opt (seq [ws, Str (py ''--rebase'')]),
           Opt (seq [ws, nonws, ws, nonws]), Eol],
      seq [Bol, Str (py ''git stash''), Opt (Str (py '' pop'')), Eol],
      seq [Bol, Str (py ''git checkout -- .''), Eol],
      seq [Bol, Str (py ''git merge --abort''), Eol],
      seq [Bol, Str (py ''git rebase --abort''), Eol],
      seq [Bol, Str (py ''git cherry-pick --abort''), Eol],
      seq [Bol, Str (py ''git reset HEAD~1''), Eol],
      seq [Bol, Str (py ''git restore --staged .''), Eol]]"

definition is_safe_auto_fix :: "pystr \<Rightarrow> bool" where
  "is_safe_auto_fix command = list_ex (\<lambda>pattern. fullmatch pattern (strip command)) SAFE_AUTO_FIX_PATTERNS"

section \<open>Error diagnosis (\<^verbatim>\<open>services/ai_service.py\<close>)\<close>

text \<open>
  \<^verbatim>\<open>\d\<close> matches every Unicode decimal digit; \<open>dec\<close> is the interpreter's table of the
  digits beyond ASCII, as for \<^verbatim>\<open>int\<close>.  The two patterns are \<^verbatim>\<open>^\d+\.\s*\<close> and \<^verbatim>\<open>^\d+\.\<close>.
\<close>

definition re_digit :: "(pychar \<Rightarrow> nat option) \<Rightarrow> pychar \<Rightarrow> bool" where
  "re_digit dec c \<longleftrightarrow> digit_value dec c \<noteq> None"

definition step_prefix :: "(pychar \<Rightarrow> nat option) \<Rightarrow> regex" where
  "step_prefix dec = seq [Bol, Rep (re_digit dec) 1, Str (py ''.''), Rep isspace 0]"

definition step_start :: "(pychar \<Rightarrow> nat option) \<Rightarrow> regex" where
  "step_start dec = seq [Bol, Rep (re_digit dec) 1, Str (py ''.'')]"

text \<open>\<^verbatim>\<open>s.split(sep, 1)\<close>: split at the first occurrence of \<open>sep\<close> only.\<close>

fun split_once_from :: "pystr \<Rightarrow> pystr \<Rightarrow> pystr \<Rightarrow> pystr list" where
  "split_once_from sep cur [] = [cur]"
| "split_once_from sep cur (c # cs) =
     (if startswith (c # cs) sep then [cur, drop (length sep) (c # cs)]
      else split_once_from sep (cur @ [c]) cs)"

definition split_once :: "pystr \<Rightarrow> pystr \<Rightarrow> pystr list" where
  "split_once sep s = split_once_from sep [] s"

record diagnosis =
  explanation :: pystr
  steps :: "pystr list"
  auto_fix :: "pystr option"

text \<open>
  The loop of \<^verbatim>\<open>diagnose_error\<close> over the lines of the reply, with the pair
  \<open>(auto_fix, clean_lines)\<close> as its state.
\<close>

fun scan_lines :: "pystr option \<times> pystr list \<Rightarrow> pystr list \<Rightarrow> pystr option \<times> pystr list" where
  "scan_lines (found, clean_lines) [] = (found, clean_lines)"
| "scan_lines (found, clean_lines) (line # rest) =
     (if startswith line (py ''AUTO_FIX:'') then
        (let auto_fix_candidate = strip (drop (length (py ''AUTO_FIX:'')) line) in
         if is_safe_auto_fix auto_fix_candidate
         then scan_lines (Some auto_fix_candidate, clean_lines) rest
         else scan_lines (found, clean_lines) rest)
      else scan_lines (found, clean_lines @ [line]) rest)"

text \<open>The explanation and the steps, computed from \<^verbatim>\<open>clean_lines\<close>.\<close>

definition summarize :: "(pychar \<Rightarrow> nat option) \<Rightarrow> pystr list \<Rightarrow> pystr \<times> pystr list" where
  "summarize dec clean_lines =
     (let explanation_text = strip (join [10] clean_lines);
          paragraphs = split_once [10, 10] explanation_text;
          expl = strip (hd paragraphs);
          steps_raw = (if length paragraphs > 1 then paragraphs ! 1 else [])
      in (expl,
          map (\<lambda>line. strip (sub_empty (step_prefix dec) line))
            (filter (\<lambda>line. rematch (step_start dec) (strip line)) (splitlines steps_raw))))"

definition diagnosis_of :: "(pychar \<Rightarrow> nat option) \<Rightarrow> pystr \<Rightarrow> diagnosis" where
  "diagnosis_of dec raw =
     (case scan_lines (None, []) (splitlines raw) of
        (found, clean_lines) \<Rightarrow>
          (case summarize dec clean_lines of
             (expl, sts) \<Rightarrow> \<lparr>explanation = expl, steps = sts, auto_fix = found\<rparr>))"

text \<open>
  \<^verbatim>\<open>diagnose_error\<close>; \<open>call_gemini\<close> is the client with the system prompt
  \<^verbatim>\<open>_MEDIC_SYSTEM_PROMPT\<close>, which answers a prompt with a text or raises.
\<close>

definition diagnose_error ::
  "(pychar \<Rightarrow> nat option) \<Rightarrow> (pystr \<Rightarrow> exn + pystr) \<Rightarrow> pystr \<Rightarrow> pystr option \<Rightarrow> exn + diagnosis" where
  "diagnose_error dec call_gemini error_output context =
     (if strip error_output = [] then Inl (ValueError EmptyErrorOutput)
      else
        (let capped_error = take 3000 error_output;
             ctx = or_default context [];
             prompt = py ''Git error output:'' @ [10, 10] @ capped_error @
               (if ctx \<noteq> [] then [10, 10] @ py ''Additional context: '' @ take 500 ctx else [])
         in case call_gemini prompt of
              Inl e \<Rightarrow> Inl e
            | Inr raw \<Rightarrow> Inr (diagnosis_of dec raw)))"

text \<open>A reply with an explanation, one step and two marked lines, and a client giving it.\<close>

definition sample_reply :: pystr where
  "sample_reply = py ''Remote moved.'' @ [10, 10] @ py ''1. Fetch'' @ [10] @
     py ''AUTO_FIX: rm -rf /'' @ [10] @ py ''AUTO_FIX: git fetch origin''"

definition sample_gemini :: "pystr \<Rightarrow> exn + pystr" where
  "sample_gemini prompt = Inr sample_reply"

section \<open>Properties of the whitelist and of the diagnosis\<close>

lemmas re_eval =
  is_safe_auto_fix_def SAFE_AUTO_FIX_PATTERNS_def fullmatch_def ws_def nonws_def
  startswith_def strip_def lstrip_def rstrip_def isspace_def py_def Let_def

lemma scan_lines_spec:
  "scan_lines (found, cl) ls = (found', cl') \<Longrightarrow>
     (found' = found \<or> (\<exists>l \<in> set ls. startswith l (py ''AUTO_FIX:'') \<and>
         found' = Some (strip (drop 9 l)) \<and> is_safe_auto_fix (strip (drop 9 l)))) \<and>
     cl' = cl @ filter (\<lambda>l. \<not> startswith l (py ''AUTO_FIX:'')) ls"
proof (induction ls arbitrary: found cl)
  case Nil
  then show ?case by simp
next
  case (Cons l ls)
  show ?case
  proof (cases "startswith l (py ''AUTO_FIX:'')")
    case False
    with Cons.prems have "scan_lines (found, cl @ [l]) ls = (found', cl')" by simp
    from Cons.IH [OF this] False show ?thesis by auto
  next
    case True
    have len: "length (py ''AUTO_FIX:'') = 9" by (simp add: py_def)
    show ?thesis
    proof (cases "is_safe_auto_fix (strip (drop 9 l))")
      case safe: True
      with True Cons.prems len have "scan_lines (Some (strip (drop 9 l)), cl) ls = (found', cl')"
        by (simp add: Let_def)
      from Cons.IH [OF this] True safe show ?thesis by auto
    next
      case unsafe: False
      with True Cons.prems len have "scan_lines (found, cl) ls = (found', cl')"
        by (simp add: Let_def)
      from Cons.IH [OF this] True show ?thesis by auto
    qed
  qed
qed

text \<open>The unit tests of the whitelist hold in the model.\<close>

lemma whitelist_unit_tests:
  "is_safe_auto_fix (py ''git fetch'')" "is_safe_auto_fix (py ''git fetch origin'')"
  "is_safe_auto_fix (py ''git stash'')" "is_safe_auto_fix (py ''git stash pop'')"
  "is_safe_auto_fix (py ''git merge --abort'')" "is_safe_auto_fix (py ''git rebase --abort'')"
  "\<not> is_safe_auto_fix (py ''git fetch && rm -rf /'')"
  "\<not> is_safe_auto_fix (py ''git push origin --force'')"
  "\<not> is_safe_auto_fix (py ''git reset --hard HEAD~5'')"
  "\<not> is_safe_auto_fix (py ''rm -rf /'')"
  "\<not> is_safe_auto_fix []"
  by (simp_all add: re_eval)

lemma fullmatch_prefix:
  "fullmatch (Cat Bol (Cat (Str l) q)) s \<Longrightarrow> startswith s l"
  by (auto simp: fullmatch_def split: if_splits)

lemma startswith_trans:
  "startswith s (a @ b) \<Longrightarrow> startswith s a"
  unfolding startswith_def
  by (metis append_eq_conv_conj length_append take_add take_all_iff append_take_drop_id min.cobounded1 take_take le_add1)

text \<open>An accepted command, once stripped, names the program \<^verbatim>\<open>git\<close>.\<close>

lemma is_safe_auto_fix_names_git:
  assumes "is_safe_auto_fix command"
  shows "startswith (strip command) (py ''git '')"
proof -
  from assms obtain p where p: "p \<in> set SAFE_AUTO_FIX_PATTERNS" "fullmatch p (strip command)"
    by (auto simp: is_safe_auto_fix_def list_ex_iff)
  from p(1) obtain l q where "p = Cat Bol (Cat (Str (py ''git '' @ l)) q)"
    by (auto simp: SAFE_AUTO_FIX_PATTERNS_def py_def)
  with p(2) have "startswith (strip command) (py ''git '' @ l)"
    using fullmatch_prefix by blast
  then show ?thesis by (rule startswith_trans)
qed

text \<open>
  Claim C1 says that the whitelist rejects every string that is not one of the safe
  commands, chained commands among them.  It does not: \<^verbatim>\<open>\S+\<close> takes any characters
  but whitespace, so a second command glued to the remote name with \<^verbatim>\<open>;\<close>, \<^verbatim>\<open>|\<close> or
  \<^verbatim>\<open>&&\<close> is fully matched, accepted, and offered by \<^verbatim>\<open>diagnose_error\<close> as the fix.
\<close>

theorem whitelist_accepts_chained_commands:
  "is_safe_auto_fix (py ''git fetch origin;reboot'') \<and>
   is_safe_auto_fix (py ''git pull a|b c&&d'') \<and>
   auto_fix (diagnosis_of ascii_only (py ''AUTO_FIX: git fetch origin;reboot'')) =
     Some (py ''git fetch origin;reboot'')"
  by (simp add: re_eval diagnosis_of_def splitlines_def is_linebreak_def split: prod.splits)

text \<open>
  Claim C2.  For every reply text \<open>raw\<close>: if the diagnosis has an \<^verbatim>\<open>auto_fix\<close>, it passes
  the whitelist and is the stripped candidate of a line of the reply that starts with
  \<^verbatim>\<open>AUTO_FIX:\<close>; a candidate that fails the whitelist is never the \<^verbatim>\<open>auto_fix\<close>; the
  explanation and the steps are computed from the lines that do not start with
  \<^verbatim>\<open>AUTO_FIX:\<close> alone; and every record \<^verbatim>\<open>diagnose_error\<close> returns is the diagnosis of
  some reply, so its \<^verbatim>\<open>auto_fix\<close> is \<^verbatim>\<open>None\<close> or passes the whitelist.
\<close>

theorem diagnosis_auto_fix_safe:
  "(\<forall>c. auto_fix (diagnosis_of dec raw) = Some c \<longrightarrow>
      is_safe_auto_fix c \<and>
      (\<exists>l \<in> set (splitlines raw). startswith l (py ''AUTO_FIX:'') \<and> c = strip (drop 9 l))) \<and>
   (\<forall>l \<in> set (splitlines raw).
      startswith l (py ''AUTO_FIX:'') \<and> \<not> is_safe_auto_fix (strip (drop 9 l)) \<longrightarrow>
      auto_fix (diagnosis_of dec raw) \<noteq> Some (strip (drop 9 l))) \<and>
   (explanation (diagnosis_of dec raw), steps (diagnosis_of dec raw)) =
      summarize dec (filter (\<lambda>l. \<not> startswith l (py ''AUTO_FIX:'')) (splitlines raw)) \<and>
   (\<forall>d. diagnose_error dec call_gemini error_output context = Inr d \<longrightarrow>
      (\<exists>reply. d = diagnosis_of dec reply \<and> (auto_fix d = None \<or> is_safe_auto_fix (the (auto_fix d)))))"
proof -
  obtain found cl where sc: "scan_lines (None, []) (splitlines raw) = (found, cl)"
    by (cases "scan_lines (None, []) (splitlines raw)") auto
  from scan_lines_spec [OF sc]
  have f: "found = None \<or> (\<exists>l \<in> set (splitlines raw). startswith l (py ''AUTO_FIX:'') \<and>
         found = Some (strip (drop 9 l)) \<and> is_safe_auto_fix (strip (drop 9 l)))"
    and c: "cl = filter (\<lambda>l. \<not> startswith l (py ''AUTO_FIX:'')) (splitlines raw)"
    by auto
  have af: "auto_fix (diagnosis_of dec raw) = found"
    by (simp add: diagnosis_of_def sc split: prod.splits)
  have ex: "(explanation (diagnosis_of dec raw), steps (diagnosis_of dec raw)) = summarize dec cl"
    by (simp add: diagnosis_of_def sc split: prod.splits)
  have safe: "is_safe_auto_fix x" if "auto_fix (diagnosis_of dec reply) = Some x" for reply x
  proof -
    obtain fo cl' where sc': "scan_lines (None, []) (splitlines reply) = (fo, cl')"
      by (cases "scan_lines (None, []) (splitlines reply)") auto
    have "auto_fix (diagnosis_of dec reply) = fo"
      by (simp add: diagnosis_of_def sc' split: prod.splits)
    with that scan_lines_spec [OF sc'] show ?thesis by auto
  qed
  have d: "\<exists>reply. d = diagnosis_of dec reply \<and> (auto_fix d = None \<or> is_safe_auto_fix (the (auto_fix d)))"
    if "diagnose_error dec call_gemini error_output context = Inr d" for d
  proof -
    from that obtain reply where r: "d = diagnosis_of dec reply"
      by (auto simp: diagnose_error_def Let_def split: if_splits sum.splits)
    show ?thesis
    proof (cases "auto_fix d")
      case None
      with r show ?thesis by auto
    next
      case (Some x)
      with r safe [of reply x] show ?thesis by auto
    qed
  qed
  from f af c ex d show ?thesis by auto
qed

text \<open>The diagnosis of the sample reply, computed step by step.\<close>

lemma sample_reply_lines: "splitlines sample_reply =
   [py ''Remote moved.'', [], py ''1. Fetch'', py ''AUTO_FIX: rm -rf /'', py ''AUTO_FIX: git fetch origin'']"
  by (simp add: sample_reply_def splitlines_def is_linebreak_def py_def)

lemma sample_candidate_unsafe: "\<not> is_safe_auto_fix (strip (drop 9 (py ''AUTO_FIX: rm -rf /'')))"
  by (simp add: re_eval)

lemma sample_candidate_strip: "strip (drop 9 (py ''AUTO_FIX: git fetch origin'')) = py ''git fetch origin''"
  by (simp add: strip_def lstrip_def rstrip_def isspace_def py_def)

lemma sample_candidate_safe: "is_safe_auto_fix (py ''git fetch origin'')"
  by (simp add: re_eval)

lemma sample_scan: "scan_lines (None, []) (splitlines sample_reply) =
   (Some (py ''git fetch origin''), [py ''Remote moved.'', [], py ''1. Fetch''])"
proof -
  have m: "length (py ''AUTO_FIX:'') = 9" by (simp add: py_def)
  have s1: "\<not> startswith (py ''Remote moved.'') (py ''AUTO_FIX:'')"
    "\<not> startswith [] (py ''AUTO_FIX:'')"
    "\<not> startswith (py ''1. Fetch'') (py ''AUTO_FIX:'')"
    "startswith (py ''AUTO_FIX: rm -rf /'') (py ''AUTO_FIX:'')"
    "startswith (py ''AUTO_FIX: git fetch origin'') (py ''AUTO_FIX:'')"
    by (simp_all add: startswith_def py_def)
  show ?thesis
    by (simp add: sample_reply_lines s1 m sample_candidate_unsafe sample_candidate_strip sample_candidate_safe Let_def)
qed

lemma sample_digits: "re_digit ascii_only 49" "\<not> re_digit ascii_only 46"
  by (simp_all add: re_digit_def digit_value_def)

lemma sample_step_start: "rematch (step_start ascii_only) (py ''1. Fetch'')"
  by (simp add: rematch_def step_start_def py_def sample_digits startswith_def upt_rec)

lemma sample_step_prefix: "sub_empty (step_prefix ascii_only) (py ''1. Fetch'') = py ''Fetch''"
  by (simp add: sub_empty_def step_prefix_def py_def sample_digits startswith_def isspace_def upt_rec)

lemma sample_strips: "strip (py ''Remote moved.'' @ 10 # 10 # py ''1. Fetch'') = py ''Remote moved.'' @ 10 # 10 # py ''1. Fetch''"
  "strip (py ''Remote moved.'') = py ''Remote moved.''"
  "strip (py ''1. Fetch'') = py ''1. Fetch''"
  "strip (py ''Fetch'') = py ''Fetch''"
  by (simp_all add: strip_def lstrip_def rstrip_def isspace_def py_def)

lemma sample_paragraphs: "split_once [10, 10] (py ''Remote moved.'' @ 10 # 10 # py ''1. Fetch'') = [py ''Remote moved.'', py ''1. Fetch'']"
  by (simp add: split_once_def startswith_def py_def)

lemma sample_step_lines: "splitlines (py ''1. Fetch'') = [py ''1. Fetch'']"
  by (simp add: splitlines_def is_linebreak_def py_def)

lemma sample_summary: "summarize ascii_only [py ''Remote moved.'', [], py ''1. Fetch''] =
   (py ''Remote moved.'', [py ''Fetch''])"
  by (simp add: summarize_def sample_strips sample_paragraphs sample_step_lines sample_step_start sample_step_prefix Let_def)

lemma sample_diagnosis: "diagnosis_of ascii_only sample_reply =
    \<lparr>explanation = py ''Remote moved.'', steps = [py ''Fetch''],
     auto_fix = Some (py ''git fetch origin'')\<rparr>"
  by (simp add: diagnosis_of_def sample_scan sample_summary)

text \<open>
  The sample reply: the unsafe candidate is dropped, the safe one is kept, and the
  marked lines are in neither the explanation nor the steps.
\<close>

theorem diagnosis_auto_fix_safe_witness:
  "diagnose_error ascii_only sample_gemini (py ''rejected'') None =
     Inr \<lparr>explanation = py ''Remote moved.'', steps = [py ''Fetch''],
          auto_fix = Some (py ''git fetch origin'')\<rparr> \<and>
   is_safe_auto_fix (py ''git fetch origin'')"
proof -
  let ?d = "\<lparr>explanation = py ''Remote moved.'', steps = [py ''Fetch''],
          auto_fix = Some (py ''git fetch origin'')\<rparr>"
  have "strip (py ''rejected'') \<noteq> []"
    by (simp add: strip_def lstrip_def rstrip_def isspace_def py_def)
  then have e: "diagnose_error ascii_only sample_gemini (py ''rejected'') None = Inr ?d"
    by (simp add: diagnose_error_def sample_gemini_def sample_diagnosis Let_def)
  from diagnosis_auto_fix_safe
    [of ascii_only sample_reply sample_gemini "py ''rejected''" None] e
  have "auto_fix ?d = None \<or> is_safe_auto_fix (the (auto_fix ?d))" by blast
  with e show ?thesis by simp
qed

end
